theory Spec2Isabelle
  imports Complex_Main
begin

section \<open>Benchmark aggregator of ios-native/Scripts/benchmark.py\<close>

text \<open>
  Python floats are modelled as real numbers: comparisons, min, max and selection are
  exact on floats, and the arithmetic (mean, division, the factor 1000) is taken without
  rounding. NaN and the infinities are not values of the model.
\<close>

subsection \<open>Data model\<close>

text \<open>
  What a call can raise. \<open>except Exception\<close> catches the first kind only; SystemExit,
  KeyboardInterrupt and GeneratorExit derive from BaseException alone. The string is
  \<open>str(e)\<close>.
\<close>

datatype raised = Exception string | BaseException string

text \<open>The metadata dict of a successful BenchmarkResult.\<close>

record metadata =
  iterations :: nat
  md_min_duration_ms :: real
  md_max_duration_ms :: real
  std_dev_ms :: real

text \<open>The dataclass BenchmarkResult; \<open>None\<close> is Python's None.\<close>

record BenchmarkResult =
  name :: string
  duration_ms :: real
  memory_mb :: real
  cpu_percent :: real
  success :: bool
  error :: "string option"
  metadata :: "metadata option"

text \<open>The four category strings, in the order of the list in \<open>_categorize_performance\<close>.\<close>

datatype category = excellent | good | acceptable | poor

text \<open>The keys of \<open>self.thresholds\<close> and the inner dict of each.\<close>

datatype metric = Duration_ms | Memory_mb | Cpu_percent

record threshold_table =
  th_excellent :: real
  th_good :: real
  th_acceptable :: real
  th_poor :: real

definition thresholds :: "metric \<Rightarrow> threshold_table" where
  "thresholds m =
     (case m of
        Duration_ms \<Rightarrow>
          \<lparr>th_excellent = 100, th_good = 500, th_acceptable = 1000, th_poor = 5000\<rparr>
      | Memory_mb \<Rightarrow>
          \<lparr>th_excellent = 10, th_good = 25, th_acceptable = 50, th_poor = 100\<rparr>
      | Cpu_percent \<Rightarrow>
          \<lparr>th_excellent = 20, th_good = 50, th_acceptable = 80, th_poor = 100\<rparr>)"

subsection \<open>Tier classification\<close>

definition get_category :: "(metric \<Rightarrow> threshold_table) \<Rightarrow> real \<Rightarrow> metric \<Rightarrow> category" where
  "get_category ths v m =
     (let t = ths m in
      if v \<le> th_excellent t then excellent
      else if v \<le> th_good t then good
      else if v \<le> th_acceptable t then acceptable
      else poor)"

definition categories :: "category list" where
  "categories = [excellent, good, acceptable, poor]"

text \<open>\<open>list.index\<close>: the position of the first occurrence (the length when absent).\<close>

fun index_of :: "'a list \<Rightarrow> 'a \<Rightarrow> nat" where
  "index_of [] y = 0"
| "index_of (x # xs) y = (if x = y then 0 else Suc (index_of xs y))"

definition categorize_performance ::
  "(metric \<Rightarrow> threshold_table) \<Rightarrow> BenchmarkResult \<Rightarrow> category" where
  "categorize_performance ths r =
     (let duration_category = get_category ths (duration_ms r) Duration_ms;
          memory_category = get_category ths (memory_mb r) Memory_mb;
          cpu_category = get_category ths (cpu_percent r) Cpu_percent;
          worst_index = max (max (index_of categories duration_category)
                                 (index_of categories memory_category))
                            (index_of categories cpu_category)
      in categories ! worst_index)"

subsection \<open>Percentile\<close>

text \<open>\<open>int(x)\<close> on a float: truncation towards zero.\<close>

definition py_int :: "real \<Rightarrow> int" where
  "py_int x = (if 0 \<le> x then \<lfloor>x\<rfloor> else \<lceil>x\<rceil>)"

text \<open>
  \<open>xs[i]\<close>: a negative index counts from the end, an index out of range raises
  IndexError.
\<close>

definition getitem :: "'a list \<Rightarrow> int \<Rightarrow> raised + 'a" where
  "getitem xs i =
     (let n = int (length xs) in
      if 0 \<le> i \<and> i < n then Inr (xs ! nat i)
      else if - n \<le> i \<and> i < 0 then Inr (xs ! nat (n + i))
      else Inl (Exception ''list index out of range''))"

text \<open>
  \<open>_percentile\<close>. The true division \<open>len * percentile / 100\<close> is taken exactly: its
  rounding to a float, and the OverflowError that Python raises when the quotient of two
  integers is beyond the float range (\<open>float_overflow_bound\<close>, about 1.8e308), are not
  modelled. For a percentile between 0 and 100 the quotient is at most the length of the
  list, which for a Python list is below \<open>2 ^ 63\<close>.
\<close>

definition float_overflow_bound :: real where
  "float_overflow_bound = 2 ^ 1024 - 2 ^ 970"

definition percentile :: "real list \<Rightarrow> int \<Rightarrow> raised + real" where
  "percentile data p =
     (if data = [] then Inr 0
      else
        let sorted_data = sort data;
            index = py_int (real_of_int (int (length sorted_data) * p) / 100)
        in getitem sorted_data (min index (int (length sorted_data) - 1)))"

subsection \<open>Statistics\<close>

text \<open>
  \<open>statistics.mean\<close>, \<open>min\<close>, \<open>max\<close> and \<open>statistics.stdev\<close> of the Python library, with
  what they raise: StatisticsError and ValueError are subclasses of Exception.
\<close>

definition py_mean :: "real list \<Rightarrow> raised + real" where
  "py_mean xs =
     (if xs = [] then Inl (Exception ''mean requires at least one data point'')
      else Inr (sum_list xs / real (length xs)))"

definition py_min :: "real list \<Rightarrow> raised + real" where
  "py_min xs =
     (case xs of [] \<Rightarrow> Inl (Exception ''min() arg is an empty sequence'')
      | x # ys \<Rightarrow> Inr (fold min ys x))"

definition py_max :: "real list \<Rightarrow> raised + real" where
  "py_max xs =
     (case xs of [] \<Rightarrow> Inl (Exception ''max() arg is an empty sequence'')
      | x # ys \<Rightarrow> Inr (fold max ys x))"

definition py_stdev :: "real list \<Rightarrow> raised + real" where
  "py_stdev xs =
     (if length xs < 2 then Inl (Exception ''stdev requires at least two data points'')
      else
        let xbar = sum_list xs / real (length xs)
        in Inr (sqrt (sum_list (map (\<lambda>x. (x - xbar)\<^sup>2) xs) / real (length xs - 1))))"

text \<open>Sequencing of calls that may raise: the first exception propagates.\<close>

definition then_do :: "raised + 'a \<Rightarrow> ('a \<Rightarrow> raised + 'b) \<Rightarrow> raised + 'b" where
  "then_do x f = (case x of Inl e \<Rightarrow> Inl e | Inr v \<Rightarrow> f v)"

subsection \<open>Recommendations\<close>

text \<open>The decimal digits of an f-string's \<open>{len(...)}\<close>.\<close>

fun str_nat :: "nat \<Rightarrow> string" where
  "str_nat n =
     (if n < 10 then [''0123456789'' ! n]
      else str_nat (n div 10) @ [''0123456789'' ! (n mod 10)])"

declare str_nat.simps [simp del]

text \<open>\<open>sep.join(xs)\<close>.\<close>

fun join :: "string \<Rightarrow> string list \<Rightarrow> string" where
  "join sep [] = []"
| "join sep [x] = x"
| "join sep (x # y # ys) = x @ sep @ join sep (y # ys)"

definition slow_message :: "BenchmarkResult list \<Rightarrow> string" where
  "slow_message slow_operations =
     (''Consider optimizing '' @ str_nat (length slow_operations) @ '' slow operations: '')
     @ join '', '' (map name (take 3 slow_operations))"

definition memory_message :: "BenchmarkResult list \<Rightarrow> string" where
  "memory_message high_memory_ops =
     ''Review memory usage for '' @ str_nat (length high_memory_ops)
     @ '' memory-intensive operations''"

definition cpu_message :: "BenchmarkResult list \<Rightarrow> string" where
  "cpu_message high_cpu_ops =
     ''Optimize CPU usage for '' @ str_nat (length high_cpu_ops)
     @ '' CPU-intensive operations''"

definition affirmation :: string where
  "affirmation = ''Excellent performance across all benchmarks!''"

definition generate_recommendations :: "BenchmarkResult list \<Rightarrow> string list" where
  "generate_recommendations results =
     (let recommendations = [];
          slow_operations = filter (\<lambda>r. duration_ms r > 100) results;
          recommendations =
            (if slow_operations \<noteq> [] then recommendations @ [slow_message slow_operations]
             else recommendations);
          high_memory_ops = filter (\<lambda>r. memory_mb r > 25) results;
          recommendations =
            (if high_memory_ops \<noteq> [] then recommendations @ [memory_message high_memory_ops]
             else recommendations);
          high_cpu_ops = filter (\<lambda>r. cpu_percent r > 50) results;
          recommendations =
            (if high_cpu_ops \<noteq> [] then recommendations @ [cpu_message high_cpu_ops]
             else recommendations);
          recommendations =
            (if recommendations = [] then recommendations @ [affirmation]
             else recommendations)
      in recommendations)"

subsection \<open>Summary\<close>

record performance_stats =
  avg_duration_ms :: real
  min_duration_ms :: real
  max_duration_ms :: real
  p95_duration_ms :: real
  p99_duration_ms :: real

record memory_stats =
  avg_memory_mb :: real
  max_memory_mb :: real
  total_memory_mb :: real

record cpu_stats =
  avg_cpu_percent :: real
  max_cpu_percent :: real

text \<open>
  The summary dict. A key that the early return leaves out is \<open>None\<close>. The dict
  \<open>performance_categories\<close> always has exactly the four category keys, so it is a function
  on them.
\<close>

record summary =
  total_tests :: nat
  successful :: nat
  failed :: nat
  success_rate :: real
  total_duration_ms :: real
  performance_stats :: "performance_stats option"
  memory_stats :: "memory_stats option"
  cpu_stats :: "cpu_stats option"
  performance_categories :: "(category \<Rightarrow> nat) option"
  recommendations :: "string list option"

text \<open>The loop \<open>categories[category] += 1\<close> over the successful results.\<close>

definition count_categories ::
  "(metric \<Rightarrow> threshold_table) \<Rightarrow> BenchmarkResult list \<Rightarrow> category \<Rightarrow> nat" where
  "count_categories ths successful_results =
     fold (\<lambda>result cats.
             let c = categorize_performance ths result in cats(c := cats c + 1))
          successful_results (\<lambda>_. 0)"

definition generate_summary ::
  "(metric \<Rightarrow> threshold_table) \<Rightarrow> BenchmarkResult list \<Rightarrow> real \<Rightarrow> raised + summary" where
  "generate_summary ths results total_duration =
     (let successful_results = filter (\<lambda>r. success r) results;
          failed_results = filter (\<lambda>r. \<not> success r) results
      in
      if successful_results = [] then
        Inr \<lparr>total_tests = length results, successful = 0,
             failed = length failed_results, success_rate = 0,
             total_duration_ms = total_duration,
             performance_stats = None, memory_stats = None, cpu_stats = None,
             performance_categories = None, recommendations = None\<rparr>
      else
        let durations = map duration_ms successful_results;
            memory_usage = map memory_mb successful_results;
            cpu_usage = map cpu_percent successful_results;
            cats = count_categories ths successful_results
        in
        then_do (py_mean durations) (\<lambda>avg_d.
        then_do (py_min durations) (\<lambda>min_d.
        then_do (py_max durations) (\<lambda>max_d.
        then_do (percentile durations 95) (\<lambda>p95.
        then_do (percentile durations 99) (\<lambda>p99.
        then_do (py_mean memory_usage) (\<lambda>avg_m.
        then_do (py_max memory_usage) (\<lambda>max_m.
        then_do (py_mean cpu_usage) (\<lambda>avg_c.
        then_do (py_max cpu_usage) (\<lambda>max_c.
          Inr \<lparr>total_tests = length results,
               successful = length successful_results,
               failed = length failed_results,
               success_rate =
                 real (length successful_results) / real (length results) * 100,
               total_duration_ms = total_duration,
               performance_stats = Some
                 \<lparr>avg_duration_ms = avg_d, min_duration_ms = min_d,
                  max_duration_ms = max_d, p95_duration_ms = p95,
                  p99_duration_ms = p99\<rparr>,
               memory_stats = Some
                 \<lparr>avg_memory_mb = avg_m, max_memory_mb = max_m,
                  total_memory_mb = sum_list memory_usage\<rparr>,
               cpu_stats = Some \<lparr>avg_cpu_percent = avg_c, max_cpu_percent = max_c\<rparr>,
               performance_categories = Some cats,
               recommendations =
                 Some (generate_recommendations successful_results)\<rparr>))))))))))"

subsection \<open>The specification's wording\<close>

text \<open>
  The order of the tiers (excellent < good < acceptable < poor), the lookup of a value
  in an ascending threshold table, and the worse of two tiers, as the specification
  words them.
\<close>

definition tier_index :: "category \<Rightarrow> nat" where
  "tier_index c = (case c of excellent \<Rightarrow> 0 | good \<Rightarrow> 1 | acceptable \<Rightarrow> 2 | poor \<Rightarrow> 3)"

definition spec_tier :: "real \<Rightarrow> real \<Rightarrow> real \<Rightarrow> real \<Rightarrow> category" where
  "spec_tier t1 t2 t3 v =
     (if v \<le> t1 then excellent else if v \<le> t2 then good
      else if v \<le> t3 then acceptable else poor)"

definition worst :: "category \<Rightarrow> category \<Rightarrow> category" where
  "worst a b = (if tier_index a \<le> tier_index b then b else a)"

text \<open>
  The percentile as the specification words it, for a percentile between 0 and 100: sort
  ascending, index \<open>floor (len * p / 100)\<close>, clamp to the last index, return the element
  there; 0 on empty input.
\<close>

definition spec_percentile :: "real list \<Rightarrow> int \<Rightarrow> real" where
  "spec_percentile data p =
     (if data = [] then 0
      else sort data !
             nat (min \<lfloor>real (length data) * real_of_int p / 100\<rfloor> (int (length data) - 1)))"

text \<open>
  The nearest-rank element for a percentile between 0 and 100 of a non-empty list: the
  value that \<open>percentile\<close> returns there.
\<close>

definition nearest_rank :: "real list \<Rightarrow> nat \<Rightarrow> real" where
  "nearest_rank xs p = sort xs ! min (nat \<lfloor>real (length xs) * real p / 100\<rfloor>) (length xs - 1)"

text \<open>
  The recommendation rules as the specification lists them: each of the three rules
  contributes its message when some result exceeds its bound, in this order.
\<close>

definition fired_rules :: "BenchmarkResult list \<Rightarrow> string list" where
  "fired_rules results =
     (let slow = filter (\<lambda>r. 100 < duration_ms r) results;
          mem = filter (\<lambda>r. 25 < memory_mb r) results;
          cpu = filter (\<lambda>r. 50 < cpu_percent r) results
      in (if slow = [] then [] else [slow_message slow])
         @ (if mem = [] then [] else [memory_message mem])
         @ (if cpu = [] then [] else [cpu_message cpu]))"

subsection \<open>Example results\<close>

text \<open>A successful and a failed result, for the concrete instances below.\<close>

definition sample_ok :: BenchmarkResult where
  "sample_ok = \<lparr>name = ''Probe_A'', duration_ms = 10, memory_mb = 1, cpu_percent = 1,
                 success = True, error = None,
                 metadata = Some \<lparr>iterations = 5, md_min_duration_ms = 10,
                                  md_max_duration_ms = 10, std_dev_ms = 0\<rparr>\<rparr>"

definition sample_failed :: BenchmarkResult where
  "sample_failed = \<lparr>name = ''Probe_B'', duration_ms = 0, memory_mb = 0, cpu_percent = 0,
                     success = False, error = Some ''boom'', metadata = None\<rparr>"


definition sample_slow :: "string \<Rightarrow> BenchmarkResult" where
  "sample_slow n = \<lparr>name = n, duration_ms = 150, memory_mb = 30, cpu_percent = 15,
                     success = True, error = None, metadata = None\<rparr>"

subsection \<open>Running a probe\<close>

text \<open>
  The world outside the program is a state \<open>'w\<close> that every call reads and changes:
  \<open>time.perf_counter()\<close> and \<open>time.time()\<close> return a reading, psutil reports the resident
  set size in bytes, raises, or cannot be imported (\<open>None\<close>), \<open>print\<close> writes a line to
  the output stream or raises (an OSError of the stream, a UnicodeEncodeError when the
  stream cannot encode the line), and a work unit returns or raises. The program state pairs the world with a counter of the invocations of work
  units, which only \<open>invoke\<close> advances.
\<close>

text \<open>
  What \<open>_print_benchmark_result\<close> prints: the line of a successful result, with the
  category that selects its emoji, the name and the three values (the formatting of the
  numbers is not modelled), or the line of a failed result, with the name and the error.
\<close>

datatype line =
  Result_line category string real real real
  | Failed_line string "string option"

record 'w env =
  perf_counter :: "'w \<Rightarrow> real \<times> 'w"
  time_time :: "'w \<Rightarrow> real \<times> 'w"
  psutil_rss :: "'w \<Rightarrow> (raised + real) option \<times> 'w"
  print_line :: "line \<Rightarrow> 'w \<Rightarrow> (raised + unit) \<times> 'w"

text \<open>
  \<open>_get_memory_usage\<close>: megabytes from psutil; when the import fails, the fallback
  \<open>25.0 + (time.time() % 10)\<close>. Any other error of psutil is not handled there.
\<close>

definition get_memory_usage :: "'w env \<Rightarrow> 'w \<Rightarrow> (raised + real) \<times> 'w" where
  "get_memory_usage env w =
     (case psutil_rss env w of
        (None, w1) \<Rightarrow>
          (case time_time env w1 of
             (t, w2) \<Rightarrow> (Inr (25 + (t - 10 * real_of_int \<lfloor>t / 10\<rfloor>)), w2))
      | (Some (Inl e), w1) \<Rightarrow> (Inl e, w1)
      | (Some (Inr rss), w1) \<Rightarrow> (Inr (rss / 1024 / 1024), w1))"

type_synonym 'w work_unit = "'w \<Rightarrow> (raised + unit) \<times> 'w"

definition read_clock :: "'w env \<Rightarrow> nat \<times> 'w \<Rightarrow> real \<times> (nat \<times> 'w)" where
  "read_clock env s = (case perf_counter env (snd s) of (t, w') \<Rightarrow> (t, (fst s, w')))"

definition read_memory :: "'w env \<Rightarrow> nat \<times> 'w \<Rightarrow> (raised + real) \<times> (nat \<times> 'w)" where
  "read_memory env s = (case get_memory_usage env (snd s) of (r, w') \<Rightarrow> (r, (fst s, w')))"

definition invoke :: "'w work_unit \<Rightarrow> nat \<times> 'w \<Rightarrow> (raised + unit) \<times> (nat \<times> 'w)" where
  "invoke f s = (case f (snd s) of (r, w') \<Rightarrow> (r, (Suc (fst s), w')))"

text \<open>
  The loop \<open>for _ in range(5)\<close>, with the number of iterations left and the list
  \<open>durations\<close> built so far. An exception of the work unit leaves the loop.
\<close>

fun run_iterations ::
  "'w env \<Rightarrow> 'w work_unit \<Rightarrow> nat \<Rightarrow> real list \<Rightarrow> nat \<times> 'w
     \<Rightarrow> (raised + real list) \<times> (nat \<times> 'w)" where
  "run_iterations env f 0 durations s = (Inr durations, s)"
| "run_iterations env f (Suc k) durations s =
     (case read_clock env s of
        (start_time, s1) \<Rightarrow>
          (case invoke f s1 of
             (Inl e, s2) \<Rightarrow> (Inl e, s2)
           | (Inr _, s2) \<Rightarrow>
               (case read_clock env s2 of
                  (end_time, s3) \<Rightarrow>
                    run_iterations env f k
                      (durations @ [(end_time - start_time) * 1000]) s3)))"

text \<open>The body of the \<open>try\<close> block of \<open>_run_single_benchmark\<close>.\<close>

definition benchmark_body ::
  "'w env \<Rightarrow> string \<Rightarrow> 'w work_unit \<Rightarrow> nat \<times> 'w
     \<Rightarrow> (raised + BenchmarkResult) \<times> (nat \<times> 'w)" where
  "benchmark_body env nm f s =
     (case read_memory env s of
        (Inl e, s1) \<Rightarrow> (Inl e, s1)
      | (Inr initial_memory, s1) \<Rightarrow>
          (case run_iterations env f 5 [] s1 of
             (Inl e, s2) \<Rightarrow> (Inl e, s2)
           | (Inr durations, s2) \<Rightarrow>
               (case read_memory env s2 of
                  (Inl e, s3) \<Rightarrow> (Inl e, s3)
                | (Inr final_memory, s3) \<Rightarrow>
                    (let memory_delta = max 0 (final_memory - initial_memory) in
                     then_do (py_mean durations) (\<lambda>avg_duration.
                     let cpu = min 100 (avg_duration / 10) in
                     then_do (py_min durations) (\<lambda>min_d.
                     then_do (py_max durations) (\<lambda>max_d.
                     then_do (if length durations > 1 then py_stdev durations else Inr 0)
                       (\<lambda>std_dev.
                       Inr \<lparr>name = nm, duration_ms = avg_duration,
                            memory_mb = memory_delta, cpu_percent = cpu,
                            success = True, error = None,
                            metadata = Some
                              \<lparr>iterations = length durations,
                               md_min_duration_ms = min_d,
                               md_max_duration_ms = max_d,
                               std_dev_ms = std_dev\<rparr>\<rparr>)))),
                     s3))))"

text \<open>The result built by the \<open>except Exception as e\<close> branch.\<close>

definition failed_result :: "string \<Rightarrow> string \<Rightarrow> BenchmarkResult" where
  "failed_result nm msg =
     \<lparr>name = nm, duration_ms = 0, memory_mb = 0, cpu_percent = 0,
      success = False, error = Some msg, metadata = None\<rparr>"

text \<open>
  \<open>_run_single_benchmark\<close>: \<open>except Exception\<close> turns an Exception into a failed result; an
  exception outside that class propagates to the caller.
\<close>

definition run_single_benchmark ::
  "'w env \<Rightarrow> string \<Rightarrow> 'w work_unit \<Rightarrow> nat \<times> 'w
     \<Rightarrow> (raised + BenchmarkResult) \<times> (nat \<times> 'w)" where
  "run_single_benchmark env nm f s =
     (case benchmark_body env nm f s of
        (Inr result, s') \<Rightarrow> (Inr result, s')
      | (Inl (Exception msg), s') \<Rightarrow> (Inr (failed_result nm msg), s')
      | (Inl (BaseException msg), s') \<Rightarrow> (Inl (BaseException msg), s'))"

text \<open>
  \<open>_print_benchmark_result\<close>. It is called outside the \<open>try\<close> block: what \<open>print\<close> raises
  is not caught.
\<close>

definition print_benchmark_result ::
  "'w env \<Rightarrow> (metric \<Rightarrow> threshold_table) \<Rightarrow> BenchmarkResult \<Rightarrow> nat \<times> 'w
     \<Rightarrow> (raised + unit) \<times> (nat \<times> 'w)" where
  "print_benchmark_result env ths result s =
     (let l = (if success result then
                 Result_line (categorize_performance ths result) (name result)
                   (duration_ms result) (memory_mb result) (cpu_percent result)
               else Failed_line (name result) (error result))
      in case print_line env l (snd s) of (r, w') \<Rightarrow> (r, (fst s, w')))"


text \<open>The sample standard deviation as the specification words it.\<close>

definition sample_stddev :: "real list \<Rightarrow> real" where
  "sample_stddev xs =
     (if length xs \<le> 1 then 0
      else sqrt ((\<Sum>x\<leftarrow>xs. (x - sum_list xs / real (length xs))\<^sup>2) / real (length xs - 1)))"

text \<open>
  The result of a probe whose five iterations took the durations \<open>ds\<close>, between the
  memory readings \<open>initial_memory\<close> and \<open>final_memory\<close>, as the specification describes
  it.
\<close>

definition measured :: "string \<Rightarrow> real list \<Rightarrow> real \<Rightarrow> real \<Rightarrow> BenchmarkResult" where
  "measured nm ds initial_memory final_memory =
     \<lparr>name = nm, duration_ms = sum_list ds / 5,
      memory_mb = max 0 (final_memory - initial_memory),
      cpu_percent = min 100 (sum_list ds / 5 / 10),
      success = True, error = None,
      metadata = Some \<lparr>iterations = 5, md_min_duration_ms = Min (set ds),
                       md_max_duration_ms = Max (set ds),
                       std_dev_ms = sample_stddev ds\<rparr>\<rparr>"

text \<open>
  A duration \<open>d\<close> is the wall-clock time in milliseconds of one invocation of the work
  unit that returned: 1000 times the difference of the clock readings around it.
\<close>

definition timed_invocation :: "'w env \<Rightarrow> 'w work_unit \<Rightarrow> real \<Rightarrow> bool" where
  "timed_invocation env f d \<longleftrightarrow>
     (\<exists>s0 t0 s1 u s2 t1 s3.
        read_clock env s0 = (t0, s1) \<and> invoke f s1 = (Inr u, s2)
        \<and> read_clock env s2 = (t1, s3) \<and> d = (t1 - t0) * 1000)"



subsection \<open>Example world\<close>

text \<open>
  A world that is a clock in milliseconds: the performance counter and the time read it
  in seconds, psutil reports 30 MB, printing returns, and the work units take 2 ms and
  return, raise an
  Exception without a message, or are interrupted from the keyboard (KeyboardInterrupt,
  a BaseException whose \<open>str\<close> is empty).
\<close>

definition example_env :: "nat env" where
  "example_env = \<lparr>perf_counter = (\<lambda>w. (real w / 1000, w)),
                   time_time = (\<lambda>w. (real w / 1000, w)),
                   psutil_rss = (\<lambda>w. (Some (Inr 31457280), w)),
                   print_line = (\<lambda>l w. (Inr (), w))\<rparr>"


definition work_sleep :: "nat work_unit" where
  "work_sleep w = (Inr (), w + 2)"

definition work_raise_empty :: "nat work_unit" where
  "work_raise_empty w = (Inl (Exception ''''), w + 1)"


definition work_fail :: "nat work_unit" where
  "work_fail w = (Inl (Exception ''boom''), w + 1)"


section \<open>Tier classification\<close>

lemma index_of_categories: "index_of categories c = tier_index c"
  by (cases c) (simp_all add: categories_def tier_index_def)

lemma categories_nth: "categories ! tier_index c = c"
  by (cases c) (simp_all add: categories_def tier_index_def)

lemma max_tier_index: "max (tier_index a) (tier_index b) = tier_index (worst a b)"
  by (simp add: worst_def max_def)

lemma categorize_worst:
  "categorize_performance ths r =
     worst (worst (get_category ths (duration_ms r) Duration_ms)
                  (get_category ths (memory_mb r) Memory_mb))
           (get_category ths (cpu_percent r) Cpu_percent)"
  by (simp add: categorize_performance_def Let_def index_of_categories max_tier_index
      categories_nth)

lemma get_category_default:
  "get_category thresholds v Duration_ms = spec_tier 100 500 1000 v"
  "get_category thresholds v Memory_mb = spec_tier 10 25 50 v"
  "get_category thresholds v Cpu_percent = spec_tier 20 50 80 v"
  by (simp_all add: get_category_def thresholds_def spec_tier_def)

text \<open>
  Claim C1. With the default threshold tables, the category of a result is the worst of
  the three per-metric tiers, each read off its ascending table (duration 100/500/1000,
  memory 10/25/50, CPU 20/50/80): its index is the maximum of the three indices. A
  result with duration 50, memory 5 and CPU 10 is excellent; with memory 60 instead it
  is poor.
\<close>

theorem categorize_performance_worst_of_three:
  "categorize_performance thresholds r =
     worst (worst (spec_tier 100 500 1000 (duration_ms r))
                  (spec_tier 10 25 50 (memory_mb r)))
           (spec_tier 20 50 80 (cpu_percent r))
   \<and> tier_index (categorize_performance thresholds r) =
       Max {tier_index (spec_tier 100 500 1000 (duration_ms r)),
            tier_index (spec_tier 10 25 50 (memory_mb r)),
            tier_index (spec_tier 20 50 80 (cpu_percent r))}
   \<and> categorize_performance thresholds
        \<lparr>name = n, duration_ms = 50, memory_mb = 5, cpu_percent = 10,
         success = True, error = None, metadata = md\<rparr> = excellent
   \<and> categorize_performance thresholds
        \<lparr>name = n, duration_ms = 50, memory_mb = 60, cpu_percent = 10,
         success = True, error = None, metadata = md\<rparr> = poor"
  by (simp add: categorize_worst get_category_default max_tier_index [symmetric])
    (simp add: spec_tier_def worst_def tier_index_def)

section \<open>Percentile\<close>

lemma getitem_in_range:
  "0 \<le> i \<Longrightarrow> i < int (length xs) \<Longrightarrow> getitem xs i = Inr (xs ! nat i)"
  by (simp add: getitem_def)

text \<open>
  For a percentile between 0 and 100 and a list as long as a Python list can be, the
  quotient \<open>len * p / 100\<close> is far inside the float range: the true division does not
  overflow there.
\<close>

lemma percentile_quotient_in_float_range:
  assumes "0 \<le> p" and "p \<le> 100" and "n < 2 ^ 63"
  shows "0 \<le> real n * real_of_int p / 100"
    and "real n * real_of_int p / 100 < float_overflow_bound"
proof -
  show "0 \<le> real n * real_of_int p / 100" using assms(1) by simp
  have "real n * real_of_int p \<le> real n * 100"
    using assms(2) by (intro mult_left_mono) simp_all
  then have "real n * real_of_int p / 100 \<le> real n" by simp
  also have "real n < 2 ^ 63"
    using assms(3) by (metis of_nat_less_iff of_nat_numeral of_nat_power)
  also have "(2::real) ^ 63 < float_overflow_bound"
    by (simp add: float_overflow_bound_def)
  finally show "real n * real_of_int p / 100 < float_overflow_bound" .
qed

lemma percentile_nonempty:
  assumes "data \<noteq> []" and "0 \<le> p" and "p \<le> 100"
  shows "percentile data p =
           Inr (sort data ! min (nat \<lfloor>real (length data) * real_of_int p / 100\<rfloor>)
                            (length data - 1))"
proof -
  let ?n = "length data"
  let ?i = "\<lfloor>real ?n * real_of_int p / 100\<rfloor>"
  let ?j = "min ?i (int ?n - 1)"
  have n: "0 < ?n" using assms(1) by simp
  have i0: "0 \<le> ?i" using assms(2) by simp
  have j0: "0 \<le> ?j" using i0 n by simp
  have jn: "?j < int (length (sort data))" by simp
  have "percentile data p = getitem (sort data) ?j"
    using assms(1,2) by (simp add: percentile_def py_int_def)
  also have "\<dots> = Inr (sort data ! nat ?j)"
    using j0 jn by (rule getitem_in_range)
  also have "nat ?j = min (nat ?i) (?n - 1)"
    using i0 n by (simp add: min_def) linarith
  finally show ?thesis .
qed

lemma percentile_eq_spec:
  assumes "0 \<le> p" and "p \<le> 100"
  shows "percentile data p = Inr (spec_percentile data p)"
proof (cases "data = []")
  case True
  then show ?thesis by (simp add: percentile_def spec_percentile_def)
next
  case False
  let ?i = "\<lfloor>real (length data) * real_of_int p / 100\<rfloor>"
  have "0 \<le> ?i" using assms(1) by simp
  moreover have "0 < length data" using False by simp
  ultimately have "nat (min ?i (int (length data) - 1)) = min (nat ?i) (length data - 1)"
    by (simp add: min_def) linarith
  with False percentile_nonempty [OF False assms] show ?thesis
    by (simp add: spec_percentile_def)
qed

text \<open>
  Claim C2. For every list and every percentile \<open>p\<close> between 0 and 100, the code's
  percentile is the specification's: on a non-empty list the element of the ascending
  sort at index \<open>floor (len * p / 100)\<close> clamped to the last index, on the empty list 0.
  In particular the percentile 50 of [10,20,30,40,50] is 30 and the percentile 95 of []
  is 0.
\<close>

theorem percentile_nearest_rank:
  "0 \<le> p \<Longrightarrow> p \<le> 100 \<Longrightarrow>
     percentile data p = Inr (spec_percentile data p)
     \<and> (data \<noteq> [] \<longrightarrow>
          percentile data p =
            Inr (sort data ! min (nat \<lfloor>real (length data) * real_of_int p / 100\<rfloor>)
                             (length data - 1)))
     \<and> percentile [] p = Inr 0
     \<and> percentile [10, 20, 30, 40, 50] 50 = Inr 30
     \<and> percentile [] 95 = Inr 0"
  apply (intro conjI impI)
      apply (erule (1) percentile_eq_spec)
     apply (erule (2) percentile_nonempty)
    apply (simp_all add: percentile_def py_int_def getitem_def)
  done

theorem percentile_nearest_rank_witness:
  "(0::int) \<le> 50 \<and> (50::int) \<le> 100
   \<and> percentile [30, 10, 50, 20, 40] 50 = Inr (spec_percentile [30, 10, 50, 20, 40] 50)
   \<and> percentile [30, 10, 50, 20, 40] 50 = Inr 30"
  using percentile_nearest_rank [of 50 "[30, 10, 50, 20, 40]"]
  by (simp add: spec_percentile_def)

text \<open>At the percentile 100 the index is the length and is clamped to the last element.\<close>

lemma percentile_hundred: "percentile [30, 10, 50, 20, 40] 100 = Inr 50"
  by (simp add: percentile_def py_int_def getitem_def)

text \<open>
  Claim C9. On a non-empty list and for \<open>0 \<le> p \<le> 100\<close> the percentile returns an
  element of the list, which therefore lies between the minimum and the maximum.
\<close>

theorem percentile_is_element:
  assumes "data \<noteq> []" and "0 \<le> p" and "p \<le> 100"
  shows "\<exists>x. percentile data p = Inr x \<and> x \<in> set data
             \<and> Min (set data) \<le> x \<and> x \<le> Max (set data)"
proof -
  let ?k = "min (nat \<lfloor>real (length data) * real_of_int p / 100\<rfloor>) (length data - 1)"
  have "?k < length (sort data)" using assms(1) by (simp add: min_less_iff_disj)
  then have "sort data ! ?k \<in> set (sort data)" by (rule nth_mem)
  then have mem: "sort data ! ?k \<in> set data" by simp
  then have "Min (set data) \<le> sort data ! ?k" "sort data ! ?k \<le> Max (set data)"
    by simp_all
  with mem percentile_nonempty [OF assms] show ?thesis by simp
qed

theorem percentile_is_element_witness:
  "[3, 1, 2 :: real] \<noteq> [] \<and> (0::int) \<le> 95 \<and> (95::int) \<le> 100
   \<and> (\<exists>x. percentile [3, 1, 2] 95 = Inr x \<and> x \<in> set [3, 1, 2 :: real]
          \<and> Min (set [3, 1, 2 :: real]) \<le> x \<and> x \<le> Max (set [3, 1, 2 :: real]))"
  using percentile_is_element [of "[3, 1, 2]" 95] by simp

section \<open>Summary\<close>


lemma py_mean_nonempty: "xs \<noteq> [] \<Longrightarrow> py_mean xs = Inr (sum_list xs / real (length xs))"
  by (simp add: py_mean_def)

lemma py_min_nonempty: "xs \<noteq> [] \<Longrightarrow> py_min xs = Inr (Min (set xs))"
  using Min.set_eq_fold [of "hd xs" "tl xs"] by (cases xs) (simp_all add: py_min_def)

lemma py_max_nonempty: "xs \<noteq> [] \<Longrightarrow> py_max xs = Inr (Max (set xs))"
  using Max.set_eq_fold [of "hd xs" "tl xs"] by (cases xs) (simp_all add: py_max_def)

lemma then_do_Inr [simp]: "then_do (Inr v) f = f v"
  by (simp add: then_do_def)

lemma then_do_Inl [simp]: "then_do (Inl e) f = Inl e"
  by (simp add: then_do_def)

lemma percentile_nearest:
  "xs \<noteq> [] \<Longrightarrow> p \<le> 100 \<Longrightarrow> percentile xs (int p) = Inr (nearest_rank xs p)"
  using percentile_nonempty [of xs "int p"] by (simp add: nearest_rank_def)

lemma generate_summary_successful:
  assumes "filter success results \<noteq> []"
  shows "generate_summary ths results t =
    Inr \<lparr>total_tests = length results,
         successful = length (filter success results),
         failed = length (filter (\<lambda>r. \<not> success r) results),
         success_rate = real (length (filter success results)) / real (length results) * 100,
         total_duration_ms = t,
         performance_stats = Some
           \<lparr>avg_duration_ms = sum_list (map duration_ms (filter success results))
                               / real (length (filter success results)),
            min_duration_ms = Min (duration_ms ` set (filter success results)),
            max_duration_ms = Max (duration_ms ` set (filter success results)),
            p95_duration_ms = nearest_rank (map duration_ms (filter success results)) 95,
            p99_duration_ms = nearest_rank (map duration_ms (filter success results)) 99\<rparr>,
         memory_stats = Some
           \<lparr>avg_memory_mb = sum_list (map memory_mb (filter success results))
                             / real (length (filter success results)),
            max_memory_mb = Max (memory_mb ` set (filter success results)),
            total_memory_mb = sum_list (map memory_mb (filter success results))\<rparr>,
         cpu_stats = Some
           \<lparr>avg_cpu_percent = sum_list (map cpu_percent (filter success results))
                               / real (length (filter success results)),
            max_cpu_percent = Max (cpu_percent ` set (filter success results))\<rparr>,
         performance_categories = Some (count_categories ths (filter success results)),
         recommendations = Some (generate_recommendations (filter success results))\<rparr>"
proof -
  let ?ok = "filter success results"
  have ne: "map duration_ms ?ok \<noteq> []" "map memory_mb ?ok \<noteq> []" "map cpu_percent ?ok \<noteq> []"
    using assms by simp_all
  have p: "percentile (map duration_ms ?ok) 95 = Inr (nearest_rank (map duration_ms ?ok) 95)"
      "percentile (map duration_ms ?ok) 99 = Inr (nearest_rank (map duration_ms ?ok) 99)"
    using percentile_nearest [OF ne(1), of 95] percentile_nearest [OF ne(1), of 99] by simp_all
  show ?thesis
    unfolding generate_summary_def Let_def
    using assms
    by (simp add: py_mean_nonempty [OF ne(1)] py_mean_nonempty [OF ne(2)]
        py_mean_nonempty [OF ne(3)] py_min_nonempty [OF ne(1)] py_max_nonempty [OF ne(1)]
        py_max_nonempty [OF ne(2)] py_max_nonempty [OF ne(3)] p del: set_filter)
qed

lemma generate_summary_no_success:
  assumes "filter success results = []"
  shows "generate_summary ths results t =
    Inr \<lparr>total_tests = length results, successful = 0,
         failed = length results, success_rate = 0,
         total_duration_ms = t,
         performance_stats = None, memory_stats = None, cpu_stats = None,
         performance_categories = None, recommendations = None\<rparr>"
proof -
  have "filter (\<lambda>r. \<not> success r) results = results"
    using assms by (simp add: filter_empty_conv)
  then show ?thesis using assms by (simp add: generate_summary_def)
qed

lemma fold_count:
  "fold (\<lambda>result cats. let c = g result in cats(c := cats c + 1)) rs f c
     = f c + length (filter (\<lambda>r. g r = c) rs)"
  by (induction rs arbitrary: f) (simp_all add: Let_def)

lemma count_categories_eq:
  "count_categories ths rs c = length (filter (\<lambda>r. categorize_performance ths r = c) rs)"
  using fold_count [of "categorize_performance ths" rs "\<lambda>_. 0" c]
  by (simp add: count_categories_def)

lemma category_partition:
  "length (filter (\<lambda>r. g r = excellent) rs) + length (filter (\<lambda>r. g r = good) rs)
   + length (filter (\<lambda>r. g r = acceptable) rs) + length (filter (\<lambda>r. g r = poor) rs)
   = length rs"
proof (induction rs)
  case Nil
  show ?case by simp
next
  case (Cons r rs)
  then show ?case by (cases "g r") simp_all
qed


lemma bex_filter_nonempty: "(\<exists>r\<in>set rs. P r) \<Longrightarrow> filter P rs \<noteq> []"
  by (simp add: filter_empty_conv)

text \<open>
  Claim C5. When at least one result is successful, the summary exists (no statistics
  call raises), its success rate is successful / total * 100 with failed results counted
  in the total, and the duration, memory and CPU statistics are those of the successful
  results alone: they are the same as for the list with the failed results removed. Ten
  results with two failures give the rate 80.
\<close>

theorem summary_over_successful:
  assumes "\<exists>r\<in>set results. success r"
  shows "\<exists>s. generate_summary ths results t = Inr s
     \<and> total_tests s = length results
     \<and> successful s = length (filter success results)
     \<and> failed s = length (filter (\<lambda>r. \<not> success r) results)
     \<and> successful s + failed s = total_tests s
     \<and> success_rate s = real (successful s) / real (total_tests s) * 100
     \<and> performance_stats s = Some
           \<lparr>avg_duration_ms = sum_list (map duration_ms (filter success results))
                               / real (length (filter success results)),
            min_duration_ms = Min (duration_ms ` set (filter success results)),
            max_duration_ms = Max (duration_ms ` set (filter success results)),
            p95_duration_ms = nearest_rank (map duration_ms (filter success results)) 95,
            p99_duration_ms = nearest_rank (map duration_ms (filter success results)) 99\<rparr>
     \<and> memory_stats s = Some
           \<lparr>avg_memory_mb = sum_list (map memory_mb (filter success results))
                             / real (length (filter success results)),
            max_memory_mb = Max (memory_mb ` set (filter success results)),
            total_memory_mb = sum_list (map memory_mb (filter success results))\<rparr>
     \<and> cpu_stats s = Some
           \<lparr>avg_cpu_percent = sum_list (map cpu_percent (filter success results))
                               / real (length (filter success results)),
            max_cpu_percent = Max (cpu_percent ` set (filter success results))\<rparr>
     \<and> (\<exists>s'. generate_summary ths (filter success results) t = Inr s'
            \<and> performance_stats s' = performance_stats s
            \<and> memory_stats s' = memory_stats s
            \<and> cpu_stats s' = cpu_stats s)
     \<and> (length results = 10 \<and> length (filter (\<lambda>r. \<not> success r) results) = 2
          \<longrightarrow> success_rate s = 80)"
proof -
  let ?ok = "filter success results"
  have ne: "?ok \<noteq> []" using assms by (rule bex_filter_nonempty)
  have ne': "filter success ?ok \<noteq> []" using ne by simp
  have len: "length ?ok + length (filter (\<lambda>r. \<not> success r) results) = length results"
    by (rule sum_length_filter_compl)
  have rate: "real (length ?ok) / real (length results) * 100 = 80"
    if "length results = 10" "length (filter (\<lambda>r. \<not> success r) results) = 2"
  proof -
    from len that have "length ?ok = 8" by simp
    with that show ?thesis by simp
  qed
  show ?thesis
    unfolding generate_summary_successful [OF ne] generate_summary_successful [OF ne']
    using len rate by simp
qed

theorem summary_over_successful_witness:
  "(\<exists>r\<in>set (replicate 8 sample_ok @ replicate 2 sample_failed). success r)
   \<and> (\<exists>s. generate_summary thresholds (replicate 8 sample_ok @ replicate 2 sample_failed) 12
              = Inr s
          \<and> total_tests s = 10 \<and> successful s = 8 \<and> failed s = 2 \<and> success_rate s = 80)"
proof -
  let ?rs = "replicate 8 sample_ok @ replicate 2 sample_failed"
  have h: "\<exists>r\<in>set ?rs. success r" by (simp add: sample_ok_def)
  have l: "length ?rs = 10" by simp
  have f: "length (filter (\<lambda>r. \<not> success r) ?rs) = 2"
    by (simp add: sample_ok_def sample_failed_def)
  from summary_over_successful [OF h, of thresholds 12] obtain s where
    a: "generate_summary thresholds ?rs 12 = Inr s" and
    b: "total_tests s = length ?rs" and
    c: "failed s = length (filter (\<lambda>r. \<not> success r) ?rs)" and
    d: "successful s + failed s = total_tests s" and
    e: "length ?rs = 10 \<and> length (filter (\<lambda>r. \<not> success r) ?rs) = 2 \<longrightarrow> success_rate s = 80"
    by blast
  from e l f have r: "success_rate s = 80" by blast
  from b l have t: "total_tests s = 10" by (simp only:)
  from c f have fl: "failed s = 2" by (simp only:)
  from d t fl have "successful s = 8" by simp
  with a r t fl h show ?thesis by blast
qed

text \<open>
  Claim C6. When no result is successful, the summary has the success rate 0, reports the
  total and the failed count, and has no performance, memory or CPU block, no category
  counts and no recommendation list.
\<close>

theorem summary_without_success:
  assumes "\<forall>r\<in>set results. \<not> success r"
  shows "generate_summary ths results t =
    Inr \<lparr>total_tests = length results, successful = 0,
         failed = length results, success_rate = 0,
         total_duration_ms = t,
         performance_stats = None, memory_stats = None, cpu_stats = None,
         performance_categories = None, recommendations = None\<rparr>"
proof -
  have "filter success results = []" using assms by (simp add: filter_empty_conv)
  then show ?thesis by (rule generate_summary_no_success)
qed

theorem summary_without_success_witness:
  "\<not> success sample_failed \<and>
   generate_summary thresholds [sample_failed, sample_failed] 7 =
    Inr \<lparr>total_tests = 2, successful = 0, failed = 2, success_rate = 0,
         total_duration_ms = 7,
         performance_stats = None, memory_stats = None, cpu_stats = None,
         performance_categories = None, recommendations = None\<rparr>"
  using summary_without_success [of "[sample_failed, sample_failed]" thresholds 7]
  by (simp add: sample_failed_def)

text \<open>
  Claim C10. When at least one result is successful, the four category counts of the
  summary add up to the number of successful results: each count is the number of
  successful results of that category, and failed results are counted nowhere.
\<close>

theorem category_counts_partition:
  assumes "\<exists>r\<in>set results. success r"
  shows "\<exists>s cats. generate_summary ths results t = Inr s
     \<and> performance_categories s = Some cats
     \<and> cats excellent + cats good + cats acceptable + cats poor = successful s
     \<and> successful s = length (filter success results)
     \<and> (\<forall>c. cats c =
            length (filter (\<lambda>r. success r \<and> categorize_performance ths r = c) results))"
proof -
  let ?ok = "filter success results"
  have ne: "?ok \<noteq> []" using assms by (rule bex_filter_nonempty)
  have "count_categories ths ?ok excellent + count_categories ths ?ok good
        + count_categories ths ?ok acceptable + count_categories ths ?ok poor = length ?ok"
    unfolding count_categories_eq by (rule category_partition)
  moreover have "count_categories ths ?ok c =
      length (filter (\<lambda>r. success r \<and> categorize_performance ths r = c) results)" for c
    unfolding count_categories_eq by (simp add: conj_commute)
  ultimately show ?thesis
    unfolding generate_summary_successful [OF ne] by simp
qed

theorem category_counts_partition_witness:
  "(\<exists>r\<in>set [sample_ok, sample_failed, sample_ok]. success r)
   \<and> (\<exists>s cats. generate_summary thresholds [sample_ok, sample_failed, sample_ok] 3 = Inr s
        \<and> performance_categories s = Some cats
        \<and> cats excellent + cats good + cats acceptable + cats poor = 2)"
proof -
  let ?rs = "[sample_ok, sample_failed, sample_ok]"
  have h: "\<exists>r\<in>set ?rs. success r" by (simp add: sample_ok_def)
  from category_counts_partition [OF h, of thresholds 3] obtain s cats where
    "generate_summary thresholds ?rs 3 = Inr s" "performance_categories s = Some cats"
    "cats excellent + cats good + cats acceptable + cats poor = successful s"
    "successful s = length (filter success ?rs)"
    by blast
  then show ?thesis using h by (simp add: sample_ok_def sample_failed_def)
qed

section \<open>Recommendations\<close>


lemma generate_recommendations_fired:
  "generate_recommendations results =
     (if fired_rules results = [] then [affirmation] else fired_rules results)"
  by (simp add: generate_recommendations_def fired_rules_def Let_def)

lemma affirmation_not_message:
  "affirmation \<noteq> slow_message xs" "affirmation \<noteq> memory_message xs"
  "affirmation \<noteq> cpu_message xs"
  by (simp_all add: affirmation_def slow_message_def memory_message_def cpu_message_def)

lemma affirmation_not_fired: "affirmation \<notin> set (fired_rules results)"
  by (simp add: fired_rules_def Let_def affirmation_not_message)

lemma fired_rules_empty_iff:
  "fired_rules results = [] \<longleftrightarrow>
     (\<forall>r\<in>set results. duration_ms r \<le> 100 \<and> memory_mb r \<le> 25 \<and> cpu_percent r \<le> 50)"
  by (auto simp add: fired_rules_def Let_def filter_empty_conv not_less)

text \<open>
  Claim C4. The recommendation list is the messages of the rules that fire, in the fixed
  order slow (duration above 100, with the count and the first three names), memory
  (above 25, with the count), CPU (above 50, with the count); the affirmation is emitted
  exactly when no rule fired, and then alone. When every result has duration 10, memory
  1 and CPU 1 the list is the affirmation and nothing else.
\<close>

theorem generate_recommendations_rules:
  "generate_recommendations results =
     (if fired_rules results = [] then [affirmation] else fired_rules results)
   \<and> fired_rules results =
       (if filter (\<lambda>r. 100 < duration_ms r) results = [] then []
        else [''Consider optimizing ''
              @ str_nat (length (filter (\<lambda>r. 100 < duration_ms r) results))
              @ '' slow operations: ''
              @ join '', '' (map name (take 3 (filter (\<lambda>r. 100 < duration_ms r) results)))])
       @ (if filter (\<lambda>r. 25 < memory_mb r) results = [] then []
          else [''Review memory usage for ''
                @ str_nat (length (filter (\<lambda>r. 25 < memory_mb r) results))
                @ '' memory-intensive operations''])
       @ (if filter (\<lambda>r. 50 < cpu_percent r) results = [] then []
          else [''Optimize CPU usage for ''
                @ str_nat (length (filter (\<lambda>r. 50 < cpu_percent r) results))
                @ '' CPU-intensive operations''])
   \<and> (affirmation \<in> set (generate_recommendations results) \<longleftrightarrow> fired_rules results = [])
   \<and> ((\<forall>r\<in>set results. duration_ms r = 10 \<and> memory_mb r = 1 \<and> cpu_percent r = 1)
        \<longrightarrow> generate_recommendations results = [affirmation])"
proof (intro conjI impI)
  show "generate_recommendations results =
     (if fired_rules results = [] then [affirmation] else fired_rules results)"
    by (rule generate_recommendations_fired)
  show "affirmation \<in> set (generate_recommendations results) \<longleftrightarrow> fired_rules results = []"
    by (simp add: generate_recommendations_fired affirmation_not_fired)
next
  assume "\<forall>r\<in>set results. duration_ms r = 10 \<and> memory_mb r = 1 \<and> cpu_percent r = 1"
  then have "fired_rules results = []" by (simp add: fired_rules_empty_iff)
  then show "generate_recommendations results = [affirmation]"
    by (simp add: generate_recommendations_fired)
qed (simp add: fired_rules_def Let_def slow_message_def memory_message_def cpu_message_def)

theorem generate_recommendations_rules_witness:
  "duration_ms sample_ok = 10 \<and> memory_mb sample_ok = 1 \<and> cpu_percent sample_ok = 1
   \<and> generate_recommendations [sample_ok, sample_ok] =
       [''Excellent performance across all benchmarks!'']"
  using generate_recommendations_rules [of "[sample_ok, sample_ok]"]
  by (simp add: sample_ok_def affirmation_def)

lemma generate_recommendations_example:
  "generate_recommendations
     [sample_slow ''A'', sample_ok, sample_slow ''B'', sample_slow ''C'', sample_slow ''D''] =
   [''Consider optimizing 4 slow operations: A, B, C'',
    ''Review memory usage for 4 memory-intensive operations'']"
  by (simp add: generate_recommendations_def sample_slow_def sample_ok_def slow_message_def
      memory_message_def str_nat.simps)

section \<open>Running a probe\<close>

lemma read_clock_fst: "read_clock env s = (t, s') \<Longrightarrow> fst s' = fst s"
  by (auto simp: read_clock_def split: prod.splits)

lemma read_memory_fst: "read_memory env s = (r, s') \<Longrightarrow> fst s' = fst s"
  by (auto simp: read_memory_def split: prod.splits)

lemma invoke_fst: "invoke f s = (r, s') \<Longrightarrow> fst s' = Suc (fst s)"
  by (auto simp: invoke_def split: prod.splits)

lemma run_iterations_Suc_Inr:
  assumes "read_clock env s = (t0, s1)" and "invoke f s1 = (Inr u, s2)"
    and "read_clock env s2 = (t1, s3)"
  shows "run_iterations env f (Suc k) ds s =
           run_iterations env f k (ds @ [(t1 - t0) * 1000]) s3"
  using assms by simp

lemma run_iterations_Suc_Inl:
  assumes "read_clock env s = (t0, s1)" and "invoke f s1 = (Inl e, s2)"
  shows "run_iterations env f (Suc k) ds s = (Inl e, s2)"
  using assms by simp

lemma run_iterations_Inr:
  "run_iterations env f k ds s = (Inr ds', s') \<Longrightarrow>
     \<exists>new. ds' = ds @ new \<and> length new = k \<and> fst s' = fst s + k"
proof (induction k arbitrary: ds s)
  case 0
  then show ?case by simp
next
  case (Suc k)
  obtain t0 s1 where c0: "read_clock env s = (t0, s1)" by (cases "read_clock env s")
  obtain r s2 where iv: "invoke f s1 = (r, s2)" by (cases "invoke f s1")
  obtain t1 s3 where c1: "read_clock env s2 = (t1, s3)" by (cases "read_clock env s2")
  show ?case
  proof (cases r)
    case (Inl e)
    with c0 iv have "run_iterations env f (Suc k) ds s = (Inl e, s2)"
      by (simp only: run_iterations_Suc_Inl)
    with Suc.prems show ?thesis by simp
  next
    case (Inr u)
    with c0 iv c1 Suc.prems
    have rec: "run_iterations env f k (ds @ [(t1 - t0) * 1000]) s3 = (Inr ds', s')"
      by (simp only: run_iterations_Suc_Inr)
    from Suc.IH [OF rec] obtain new where
      n: "ds' = (ds @ [(t1 - t0) * 1000]) @ new" "length new = k" "fst s' = fst s3 + k"
      by blast
    have "fst s3 = Suc (fst s)"
      using read_clock_fst [OF c0] invoke_fst [OF iv] read_clock_fst [OF c1] by simp
    with n have "ds' = ds @ ((t1 - t0) * 1000 # new) \<and> length ((t1 - t0) * 1000 # new) = Suc k
       \<and> fst s' = fst s + Suc k" by simp
    then show ?thesis by blast
  qed
qed

lemma py_stdev_guarded:
  "(if length xs > 1 then py_stdev xs else Inr 0) = Inr (sample_stddev xs)"
  by (simp add: py_stdev_def sample_stddev_def Let_def)

lemma run_iterations_five:
  assumes "run_iterations env f 5 [] s = (Inr ds, s')"
  shows "length ds = 5" and "fst s' = fst s + 5"
  using run_iterations_Inr [OF assms] by auto

lemma benchmark_body_success:
  assumes m0: "read_memory env s = (Inr init, s1)"
    and it: "run_iterations env f 5 [] s1 = (Inr ds, s2)"
    and m1: "read_memory env s2 = (Inr fin, s3)"
  shows "benchmark_body env nm f s = (Inr (measured nm ds init fin), s3)"
proof -
  have len: "length ds = 5" using it by (rule run_iterations_five)
  then have ne: "ds \<noteq> []" by auto
  have st: "(if length ds > 1 then py_stdev ds else Inr 0) = Inr (sample_stddev ds)"
    by (rule py_stdev_guarded)
  show ?thesis
    unfolding benchmark_body_def measured_def
    by (simp only: m0 it m1 prod.case sum.case Let_def py_mean_nonempty [OF ne] py_min_nonempty [OF ne]
        py_max_nonempty [OF ne] st [unfolded len] then_do_Inr len of_nat_numeral)
qed

lemma benchmark_body_cases:
  obtains (memory_before) e s1 where
      "read_memory env s = (Inl e, s1)" "benchmark_body env nm f s = (Inl e, s1)"
  | (work_unit) init s1 e s2 where
      "read_memory env s = (Inr init, s1)" "run_iterations env f 5 [] s1 = (Inl e, s2)"
      "benchmark_body env nm f s = (Inl e, s2)"
  | (memory_after) init s1 ds s2 e s3 where
      "read_memory env s = (Inr init, s1)" "run_iterations env f 5 [] s1 = (Inr ds, s2)"
      "read_memory env s2 = (Inl e, s3)" "benchmark_body env nm f s = (Inl e, s3)"
  | (returned) init s1 ds s2 fin s3 where
      "read_memory env s = (Inr init, s1)" "run_iterations env f 5 [] s1 = (Inr ds, s2)"
      "read_memory env s2 = (Inr fin, s3)"
      "benchmark_body env nm f s = (Inr (measured nm ds init fin), s3)"
proof -
  obtain rm s1 where m0: "read_memory env s = (rm, s1)" by (cases "read_memory env s")
  show thesis
  proof (cases rm)
    case (Inl e)
    with m0 have "benchmark_body env nm f s = (Inl e, s1)" by (simp add: benchmark_body_def)
    with m0 Inl show thesis by (auto intro: memory_before)
  next
    case init: (Inr init)
    obtain ri s2 where it: "run_iterations env f 5 [] s1 = (ri, s2)"
      by (cases "run_iterations env f 5 [] s1")
    show thesis
    proof (cases ri)
      case (Inl e)
      with m0 init it have "benchmark_body env nm f s = (Inl e, s2)"
        by (simp add: benchmark_body_def)
      with m0 init it Inl show thesis by (auto intro: work_unit)
    next
      case ds: (Inr ds)
      obtain rf s3 where m1: "read_memory env s2 = (rf, s3)" by (cases "read_memory env s2")
      show thesis
      proof (cases rf)
        case (Inl e)
        with m0 init it ds m1 have "benchmark_body env nm f s = (Inl e, s3)"
          by (simp add: benchmark_body_def)
        with m0 init it ds m1 Inl show thesis by (auto intro: memory_after)
      next
        case (Inr fin)
        with m0 init it ds m1 show thesis
          by (auto intro: returned benchmark_body_success)
      qed
    qed
  qed
qed

lemma measured_success [simp]: "success (measured nm ds init fin)"
  by (simp add: measured_def)

lemma failed_result_simps [simp]:
  "\<not> success (failed_result nm msg)" "name (failed_result nm msg) = nm"
  "duration_ms (failed_result nm msg) = 0" "memory_mb (failed_result nm msg) = 0"
  "cpu_percent (failed_result nm msg) = 0" "error (failed_result nm msg) = Some msg"
  "metadata (failed_result nm msg) = None"
  by (simp_all add: failed_result_def)

lemma run_single_of_body:
  "benchmark_body env nm f s = (Inr r, s') \<Longrightarrow> run_single_benchmark env nm f s = (Inr r, s')"
  "benchmark_body env nm f s = (Inl (Exception msg), s') \<Longrightarrow>
     run_single_benchmark env nm f s = (Inr (failed_result nm msg), s')"
  "benchmark_body env nm f s = (Inl (BaseException msg), s') \<Longrightarrow>
     run_single_benchmark env nm f s = (Inl (BaseException msg), s')"
  by (simp_all add: run_single_benchmark_def)

lemma run_iterations_timed:
  "run_iterations env f k ds s = (Inr ds', s') \<Longrightarrow>
     list_all (timed_invocation env f) ds \<Longrightarrow> list_all (timed_invocation env f) ds'"
proof (induction k arbitrary: ds s)
  case 0
  then show ?case by simp
next
  case (Suc k)
  obtain t0 s1 where c0: "read_clock env s = (t0, s1)" by (cases "read_clock env s")
  obtain r s2 where iv: "invoke f s1 = (r, s2)" by (cases "invoke f s1")
  obtain t1 s3 where c1: "read_clock env s2 = (t1, s3)" by (cases "read_clock env s2")
  show ?case
  proof (cases r)
    case (Inl e)
    with c0 iv have "run_iterations env f (Suc k) ds s = (Inl e, s2)"
      by (simp only: run_iterations_Suc_Inl)
    with Suc.prems show ?thesis by simp
  next
    case (Inr u)
    with c0 iv c1 Suc.prems
    have rec: "run_iterations env f k (ds @ [(t1 - t0) * 1000]) s3 = (Inr ds', s')"
      by (simp only: run_iterations_Suc_Inr)
    have "timed_invocation env f ((t1 - t0) * 1000)"
      unfolding timed_invocation_def using c0 iv c1 Inr by blast
    with Suc.prems(2) have "list_all (timed_invocation env f) (ds @ [(t1 - t0) * 1000])"
      by simp
    with rec show ?thesis by (rule Suc.IH)
  qed
qed



lemma benchmark_body_Inr:
  assumes "benchmark_body env nm f s = (Inr r, s')"
  obtains init s1 ds s2 fin where
    "read_memory env s = (Inr init, s1)" "run_iterations env f 5 [] s1 = (Inr ds, s2)"
    "read_memory env s2 = (Inr fin, s')" "r = measured nm ds init fin"
  using assms by (cases rule: benchmark_body_cases [of env s nm f]) auto

lemma run_single_cases:
  obtains (returned) r where "benchmark_body env nm f s = (Inr r, s')"
      "run_single_benchmark env nm f s = (Inr r, s')"
  | (caught) msg where "benchmark_body env nm f s = (Inl (Exception msg), s')"
      "run_single_benchmark env nm f s = (Inr (failed_result nm msg), s')"
  | (escaped) msg where "benchmark_body env nm f s = (Inl (BaseException msg), s')"
      "run_single_benchmark env nm f s = (Inl (BaseException msg), s')"
  | (other) "snd (benchmark_body env nm f s) \<noteq> s'" "snd (run_single_benchmark env nm f s) \<noteq> s'"
proof -
  obtain rb sb where b: "benchmark_body env nm f s = (rb, sb)"
    by (cases "benchmark_body env nm f s")
  show thesis
  proof (cases "sb = s'")
    case False
    with b have "snd (benchmark_body env nm f s) \<noteq> s'" by simp
    moreover from b False have "snd (run_single_benchmark env nm f s) \<noteq> s'"
      by (simp add: run_single_benchmark_def split: sum.splits raised.splits)
    ultimately show thesis by (rule other)
  next
    case True
    show thesis
    proof (cases rb)
      case (Inr r)
      with b True show thesis by (auto intro: returned run_single_of_body)
    next
      case (Inl e)
      with b True show thesis
        by (cases e) (auto intro: caught escaped run_single_of_body)
    qed
  qed
qed

text \<open>
  Claim C3, amended. A result of the probe runner with \<open>success = False\<close> has duration,
  memory and CPU zero and no metadata, and its error is the string of the exception that
  the body raised (which may be the empty string).
\<close>

theorem failed_result_fields:
  assumes "run_single_benchmark env nm f s = (Inr r, s')" and "\<not> success r"
  shows "duration_ms r = 0 \<and> memory_mb r = 0 \<and> cpu_percent r = 0 \<and> metadata r = None
     \<and> (\<exists>msg. error r = Some msg \<and> benchmark_body env nm f s = (Inl (Exception msg), s'))"
proof (cases rule: run_single_cases [of env nm f s s'])
  case (returned r')
  with assms(1) have "r' = r" by simp
  with returned(1) have "success r" by (auto elim: benchmark_body_Inr)
  with assms(2) show ?thesis by simp
next
  case (caught msg)
  with assms(1) have "r = failed_result nm msg" by simp
  with caught(1) show ?thesis by simp
next
  case (escaped msg)
  with assms(1) show ?thesis by simp
next
  case other
  with assms(1) show ?thesis by simp
qed

text \<open>
  Claim C8. A successful result of the probe runner comes from a run in which both
  memory queries returned and the work unit was invoked exactly five times: its duration
  is the mean of the five wall-clock durations, its memory the difference of the two
  readings clamped at 0, its CPU value \<open>min 100 (duration / 10)\<close>, and its metadata records
  5 iterations with the minimum, maximum and sample standard deviation of the durations.
\<close>

theorem successful_result_measurements:
  assumes "run_single_benchmark env nm f s = (Inr r, s')" and "success r"
  shows "\<exists>init s1 ds s2 fin.
      read_memory env s = (Inr init, s1) \<and> run_iterations env f 5 [] s1 = (Inr ds, s2)
      \<and> read_memory env s2 = (Inr fin, s')
      \<and> fst s' = fst s + 5
      \<and> length ds = 5 \<and> list_all (timed_invocation env f) ds
      \<and> duration_ms r = sum_list ds / 5
      \<and> memory_mb r = max 0 (fin - init) \<and> 0 \<le> memory_mb r
      \<and> cpu_percent r = min 100 (duration_ms r / 10)
      \<and> error r = None
      \<and> metadata r = Some \<lparr>iterations = 5, md_min_duration_ms = Min (set ds),
                            md_max_duration_ms = Max (set ds),
                            std_dev_ms = sample_stddev ds\<rparr>"
proof (cases rule: run_single_cases [of env nm f s s'])
  case (returned r')
  with assms(1) have r': "r' = r" by simp
  from returned(1) obtain init s1 ds s2 fin where
    b: "read_memory env s = (Inr init, s1)" "run_iterations env f 5 [] s1 = (Inr ds, s2)"
    "read_memory env s2 = (Inr fin, s')" "r' = measured nm ds init fin"
    by (rule benchmark_body_Inr)
  have "fst s' = fst s + 5"
    using read_memory_fst [OF b(1)] run_iterations_five(2) [OF b(2)] read_memory_fst [OF b(3)]
    by simp
  moreover have "length ds = 5" using b(2) by (rule run_iterations_five)
  moreover have "list_all (timed_invocation env f) ds"
    using b(2) by (rule run_iterations_timed) simp
  moreover have "duration_ms r = sum_list ds / 5" "memory_mb r = max 0 (fin - init)"
    "0 \<le> memory_mb r" "cpu_percent r = min 100 (duration_ms r / 10)" "error r = None"
    "metadata r = Some \<lparr>iterations = 5, md_min_duration_ms = Min (set ds),
                            md_max_duration_ms = Max (set ds),
                            std_dev_ms = sample_stddev ds\<rparr>"
    using b(4) r' by (simp_all add: measured_def)
  ultimately show ?thesis using b(1-3) by blast
next
  case (caught msg)
  with assms(1) have "r = failed_result nm msg" by simp
  with assms(2) show ?thesis by simp
next
  case (escaped msg)
  with assms(1) show ?thesis by simp
next
  case other
  with assms(1) show ?thesis by simp
qed





lemma print_benchmark_result_fst:
  "print_benchmark_result env ths result s = (r, s') \<Longrightarrow> fst s' = fst s"
  by (auto simp: print_benchmark_result_def Let_def split: prod.splits)







section \<open>The example world\<close>

lemma read_memory_example: "read_memory example_env s = (Inr 30, s)"
  by (simp add: read_memory_def get_memory_usage_def example_env_def)

lemma read_clock_example: "read_clock example_env s = (real (snd s) / 1000, s)"
  by (simp add: read_clock_def example_env_def)

lemma run_iterations_sleep:
  "run_iterations example_env work_sleep 5 [] (0, 0) = (Inr [2, 2, 2, 2, 2], (5, 10))"
  "run_iterations example_env work_sleep 5 [] (3, 5) = (Inr [2, 2, 2, 2, 2], (8, 15))"
  by (simp_all add: eval_nat_numeral read_clock_example invoke_def work_sleep_def)

lemma run_single_sleep:
  "run_single_benchmark example_env nm work_sleep (0, 0) =
     (Inr (measured nm [2, 2, 2, 2, 2] 30 30), (5, 10))"
  "run_single_benchmark example_env nm work_sleep (3, 5) =
     (Inr (measured nm [2, 2, 2, 2, 2] 30 30), (8, 15))"
proof -
  have "benchmark_body example_env nm work_sleep (0, 0) =
     (Inr (measured nm [2, 2, 2, 2, 2] 30 30), (5, 10))"
    by (rule benchmark_body_success
        [OF read_memory_example run_iterations_sleep(1) read_memory_example])
  then show "run_single_benchmark example_env nm work_sleep (0, 0) =
     (Inr (measured nm [2, 2, 2, 2, 2] 30 30), (5, 10))"
    by (rule run_single_of_body)
  have "benchmark_body example_env nm work_sleep (3, 5) =
     (Inr (measured nm [2, 2, 2, 2, 2] 30 30), (8, 15))"
    by (rule benchmark_body_success
        [OF read_memory_example run_iterations_sleep(2) read_memory_example])
  then show "run_single_benchmark example_env nm work_sleep (3, 5) =
     (Inr (measured nm [2, 2, 2, 2, 2] 30 30), (8, 15))"
    by (rule run_single_of_body)
qed

lemma run_single_raise_empty:
  "run_single_benchmark example_env ''P'' work_raise_empty (0, 0) =
     (Inr (failed_result ''P'' ''''), (1, 1))"
  by (simp add: run_single_benchmark_def benchmark_body_def eval_nat_numeral
      read_memory_example read_clock_example invoke_def work_raise_empty_def)

lemma run_single_fail:
  "run_single_benchmark example_env ''P'' work_fail (0, 0) =
     (Inr (failed_result ''P'' ''boom''), (1, 1))"
  by (simp add: run_single_benchmark_def benchmark_body_def eval_nat_numeral
      read_memory_example read_clock_example invoke_def work_fail_def)

text \<open>
  Claim C3, as stated: refuted by a work unit that raises an exception without a message
  (such as \<open>raise ValueError()\<close>). The result has \<open>success = False\<close> and its error is
  \<open>str(e)\<close>, the empty string.
\<close>

theorem empty_error_counterexample:
  "run_single_benchmark example_env ''P'' work_raise_empty (0, 0) =
     (Inr (failed_result ''P'' ''''), (1, 1))
   \<and> \<not> success (failed_result ''P'' '''')
   \<and> error (failed_result ''P'' '''') = Some ''''"
  using run_single_raise_empty by simp

theorem failed_result_fields_witness:
  "run_single_benchmark example_env ''P'' work_fail (0, 0) =
     (Inr (failed_result ''P'' ''boom''), (1, 1))
   \<and> \<not> success (failed_result ''P'' ''boom'')
   \<and> duration_ms (failed_result ''P'' ''boom'') = 0
   \<and> memory_mb (failed_result ''P'' ''boom'') = 0
   \<and> cpu_percent (failed_result ''P'' ''boom'') = 0
   \<and> metadata (failed_result ''P'' ''boom'') = None
   \<and> error (failed_result ''P'' ''boom'') = Some ''boom''
   \<and> benchmark_body example_env ''P'' work_fail (0, 0) = (Inl (Exception ''boom''), (1, 1))"
proof -
  have h: "\<not> success (failed_result ''P'' ''boom'')" by simp
  from failed_result_fields [OF run_single_fail h] run_single_fail show ?thesis by simp
qed

theorem successful_result_measurements_witness:
  "run_single_benchmark example_env ''P'' work_sleep (0, 0) =
     (Inr (measured ''P'' [2, 2, 2, 2, 2] 30 30), (5, 10))
   \<and> success (measured ''P'' [2, 2, 2, 2, 2] 30 30)
   \<and> run_iterations example_env work_sleep 5 [] (0, 0) = (Inr [2, 2, 2, 2, 2], (5, 10))
   \<and> duration_ms (measured ''P'' [2, 2, 2, 2, 2] 30 30) = 2
   \<and> memory_mb (measured ''P'' [2, 2, 2, 2, 2] 30 30) = 0
   \<and> cpu_percent (measured ''P'' [2, 2, 2, 2, 2] 30 30) = 1 / 5
   \<and> metadata (measured ''P'' [2, 2, 2, 2, 2] 30 30) =
       Some \<lparr>iterations = 5, md_min_duration_ms = 2, md_max_duration_ms = 2, std_dev_ms = 0\<rparr>"
proof -
  have h1: "run_single_benchmark example_env ''P'' work_sleep (0, 0) =
     (Inr (measured ''P'' [2, 2, 2, 2, 2] 30 30), (5, 10))"
    by (rule run_single_sleep)
  have h2: "success (measured ''P'' [2, 2, 2, 2, 2] 30 30)" by simp
  have h3: "run_iterations example_env work_sleep 5 [] (0, 0) = (Inr [2, 2, 2, 2, 2], (5, 10))"
    by (rule run_iterations_sleep)
  from successful_result_measurements [OF h1 h2] obtain ds where
    "run_iterations example_env work_sleep 5 [] (0, 0) = (Inr ds, (5, 10))"
    "duration_ms (measured ''P'' [2, 2, 2, 2, 2] 30 30) = sum_list ds / 5"
    "cpu_percent (measured ''P'' [2, 2, 2, 2, 2] 30 30) =
       min 100 (duration_ms (measured ''P'' [2, 2, 2, 2, 2] 30 30) / 10)"
    "metadata (measured ''P'' [2, 2, 2, 2, 2] 30 30) =
       Some \<lparr>iterations = 5, md_min_duration_ms = Min (set ds),
             md_max_duration_ms = Max (set ds), std_dev_ms = sample_stddev ds\<rparr>"
    by (auto simp: read_memory_example)
  with h1 h2 h3 show ?thesis by (simp add: measured_def sample_stddev_def)
qed







text \<open>
  Without psutil the memory query is the synthetic value \<open>25 + (time % 10)\<close>, which lies
  in the interval from 25 to 35 and never raises.
\<close>

lemma get_memory_usage_fallback:
  assumes "psutil_rss env w = (None, w1)"
  shows "\<exists>m w2. get_memory_usage env w = (Inr m, w2) \<and> 25 \<le> m \<and> m < 35"
proof -
  obtain t w2 where t: "time_time env w1 = (t, w2)" by (cases "time_time env w1")
  have "0 \<le> t - 10 * real_of_int \<lfloor>t / 10\<rfloor>" "t - 10 * real_of_int \<lfloor>t / 10\<rfloor> < 10"
    by linarith+
  with assms t show ?thesis by (simp add: get_memory_usage_def)
qed

end
